theory Spec2Isabelle
  imports Main
begin

section \<open>Proxmox MCP server: the registered tool functions and the process lifecycle\<close>

text \<open>
  A shallow embedding of \<^verbatim>\<open>src/proxmox_mcp/server.py\<close>. The module registers eleven
  functions with the MCP runtime (\<^verbatim>\<open>_setup_tools\<close>, lines 79--167), each of which
  delegates to one method of a tool group, and it owns the process lifecycle
  (\<^verbatim>\<open>start\<close>, lines 169--194, and the \<^verbatim>\<open>__main__\<close> block, lines 197--211).
  The tool groups, the configuration loader and the descriptions are other modules of the
  package; the MCP runtime and the event loop are libraries. None of them is in the
  module, so they enter the model as parameters.
\<close>

subsection \<open>Python exceptions and content blocks\<close>

text \<open>
  The exception classes that the module's \<^verbatim>\<open>except\<close> clauses tell apart.
  \<open>Exception msg\<close> is any instance of \<^verbatim>\<open>Exception\<close>, with \<open>msg\<close> its \<^verbatim>\<open>str()\<close>;
  \<^verbatim>\<open>KeyboardInterrupt\<close> and \<^verbatim>\<open>SystemExit\<close> derive from \<^verbatim>\<open>BaseException\<close>
  only, as does every \<open>OtherBaseException\<close>.
\<close>

datatype py_exc =
    Exception string
  | KeyboardInterrupt
  | SystemExit int
  | OtherBaseException string

text \<open>\<^verbatim>\<open>mcp.types.TextContent\<close>: a typed text payload.\<close>

record TextContent =
  content_type :: string
  content_text :: string

text \<open>
  What a call on the hypervisor returns: the list of content blocks, or the exception
  raised, together with the state of the hypervisor connection \<open>'b\<close> after the call.
\<close>

type_synonym 'b reply = "(py_exc + TextContent list) \<times> 'b"

subsection \<open>The tool groups\<close>

text \<open>
  The methods of \<^verbatim>\<open>self.node_tools\<close>, \<^verbatim>\<open>self.vm_tools\<close>, \<^verbatim>\<open>self.container_tools\<close>,
  \<^verbatim>\<open>self.storage_tools\<close>, \<^verbatim>\<open>self.cluster_tools\<close> and \<^verbatim>\<open>self.ai_diagnostics\<close>
  that the module calls (constructed at lines 68--73). Their classes live in
  \<^verbatim>\<open>proxmox_mcp/tools/\<close>; here each method is a field of the server object.
\<close>

record 'b ProxmoxMCPServer =
  node_tools_get_nodes :: "'b \<Rightarrow> 'b reply"
  node_tools_get_node_status :: "string \<Rightarrow> 'b \<Rightarrow> 'b reply"
  vm_tools_get_vms :: "'b \<Rightarrow> 'b reply"
  container_tools_get_containers :: "'b \<Rightarrow> 'b reply"
  vm_tools_execute_command :: "string \<Rightarrow> string \<Rightarrow> string \<Rightarrow> 'b \<Rightarrow> 'b reply"
  storage_tools_get_storage :: "'b \<Rightarrow> 'b reply"
  cluster_tools_get_cluster_status :: "'b \<Rightarrow> 'b reply"
  ai_diagnostics_analyze_cluster_health :: "'b \<Rightarrow> 'b reply"
  ai_diagnostics_diagnose_vm_issues :: "string \<Rightarrow> string \<Rightarrow> 'b \<Rightarrow> 'b reply"
  ai_diagnostics_suggest_resource_optimization :: "'b \<Rightarrow> 'b reply"
  ai_diagnostics_analyze_security_posture :: "'b \<Rightarrow> 'b reply"

subsection \<open>The registered functions (lines 93--167)\<close>

text \<open>
  Each function is one \<^verbatim>\<open>return\<close> of the delegate's value (\<^verbatim>\<open>return await\<close> for the
  coroutines); none has a \<^verbatim>\<open>try\<close>, so an exception of the delegate leaves the
  function as it was raised.
\<close>

definition get_nodes :: "'b ProxmoxMCPServer \<Rightarrow> 'b \<Rightarrow> 'b reply" where
  "get_nodes self = node_tools_get_nodes self"

definition get_node_status :: "'b ProxmoxMCPServer \<Rightarrow> string \<Rightarrow> 'b \<Rightarrow> 'b reply" where
  "get_node_status self node = node_tools_get_node_status self node"

definition get_vms :: "'b ProxmoxMCPServer \<Rightarrow> 'b \<Rightarrow> 'b reply" where
  "get_vms self = vm_tools_get_vms self"

definition get_containers :: "'b ProxmoxMCPServer \<Rightarrow> 'b \<Rightarrow> 'b reply" where
  "get_containers self = container_tools_get_containers self"

definition execute_vm_command ::
  "'b ProxmoxMCPServer \<Rightarrow> string \<Rightarrow> string \<Rightarrow> string \<Rightarrow> 'b \<Rightarrow> 'b reply" where
  "execute_vm_command self node vmid command = vm_tools_execute_command self node vmid command"

definition get_storage :: "'b ProxmoxMCPServer \<Rightarrow> 'b \<Rightarrow> 'b reply" where
  "get_storage self = storage_tools_get_storage self"

definition get_cluster_status :: "'b ProxmoxMCPServer \<Rightarrow> 'b \<Rightarrow> 'b reply" where
  "get_cluster_status self = cluster_tools_get_cluster_status self"

definition analyze_cluster_health :: "'b ProxmoxMCPServer \<Rightarrow> 'b \<Rightarrow> 'b reply" where
  "analyze_cluster_health self = ai_diagnostics_analyze_cluster_health self"

definition diagnose_vm_issues ::
  "'b ProxmoxMCPServer \<Rightarrow> string \<Rightarrow> string \<Rightarrow> 'b \<Rightarrow> 'b reply" where
  "diagnose_vm_issues self node vmid = ai_diagnostics_diagnose_vm_issues self node vmid"

definition suggest_resource_optimization :: "'b ProxmoxMCPServer \<Rightarrow> 'b \<Rightarrow> 'b reply" where
  "suggest_resource_optimization self = ai_diagnostics_suggest_resource_optimization self"

definition analyze_security_posture :: "'b ProxmoxMCPServer \<Rightarrow> 'b \<Rightarrow> 'b reply" where
  "analyze_security_posture self = ai_diagnostics_analyze_security_posture self"

subsection \<open>Observing the delegate calls\<close>

text \<open>
  To count calls, the tool groups are wrapped the way a test double records them: the
  connection state is paired with the list of delegate calls made so far, and every
  method appends its own call, arguments included, before it answers as the wrapped
  method does.
\<close>

datatype handler_call =
    Node_get_nodes
  | Node_get_node_status string
  | Vm_get_vms
  | Container_get_containers
  | Vm_execute_command string string string
  | Storage_get_storage
  | Cluster_get_cluster_status
  | Ai_analyze_cluster_health
  | Ai_diagnose_vm_issues string string
  | Ai_suggest_resource_optimization
  | Ai_analyze_security_posture

record 'b recorded =
  calls :: "handler_call list"
  connection :: 'b

definition recording_call ::
  "handler_call \<Rightarrow> ('b \<Rightarrow> 'b reply) \<Rightarrow> 'b recorded \<Rightarrow> 'b recorded reply" where
  "recording_call c h s =
     (case h (connection s) of
        (r, b) \<Rightarrow> (r, \<lparr>calls = calls s @ [c], connection = b\<rparr>))"

definition recording :: "'b ProxmoxMCPServer \<Rightarrow> 'b recorded ProxmoxMCPServer" where
  "recording self =
     \<lparr>node_tools_get_nodes = recording_call Node_get_nodes (node_tools_get_nodes self),
      node_tools_get_node_status =
        (\<lambda>node. recording_call (Node_get_node_status node)
           (node_tools_get_node_status self node)),
      vm_tools_get_vms = recording_call Vm_get_vms (vm_tools_get_vms self),
      container_tools_get_containers =
        recording_call Container_get_containers (container_tools_get_containers self),
      vm_tools_execute_command =
        (\<lambda>node vmid command. recording_call (Vm_execute_command node vmid command)
           (vm_tools_execute_command self node vmid command)),
      storage_tools_get_storage =
        recording_call Storage_get_storage (storage_tools_get_storage self),
      cluster_tools_get_cluster_status =
        recording_call Cluster_get_cluster_status (cluster_tools_get_cluster_status self),
      ai_diagnostics_analyze_cluster_health =
        recording_call Ai_analyze_cluster_health (ai_diagnostics_analyze_cluster_health self),
      ai_diagnostics_diagnose_vm_issues =
        (\<lambda>node vmid. recording_call (Ai_diagnose_vm_issues node vmid)
           (ai_diagnostics_diagnose_vm_issues self node vmid)),
      ai_diagnostics_suggest_resource_optimization =
        recording_call Ai_suggest_resource_optimization
          (ai_diagnostics_suggest_resource_optimization self),
      ai_diagnostics_analyze_security_posture =
        recording_call Ai_analyze_security_posture
          (ai_diagnostics_analyze_security_posture self)\<rparr>"

text \<open>
  Two servers for concrete runs: one whose hypervisor is unreachable, so that every
  delegate raises, and one whose delegates answer with fixed blocks (the node list holds
  the same block twice).
\<close>

definition unreachable :: "'b \<Rightarrow> 'b reply" where
  "unreachable b = (Inl (Exception ''node unreachable''), b)"

definition unreachable_server :: "nat ProxmoxMCPServer" where
  "unreachable_server =
     \<lparr>node_tools_get_nodes = unreachable,
      node_tools_get_node_status = (\<lambda>node. unreachable),
      vm_tools_get_vms = unreachable,
      container_tools_get_containers = unreachable,
      vm_tools_execute_command = (\<lambda>node vmid command. unreachable),
      storage_tools_get_storage = unreachable,
      cluster_tools_get_cluster_status = unreachable,
      ai_diagnostics_analyze_cluster_health = unreachable,
      ai_diagnostics_diagnose_vm_issues = (\<lambda>node vmid. unreachable),
      ai_diagnostics_suggest_resource_optimization = unreachable,
      ai_diagnostics_analyze_security_posture = unreachable\<rparr>"

definition block :: "string \<Rightarrow> TextContent" where
  "block s = \<lparr>content_type = ''text'', content_text = s\<rparr>"

definition answering :: "TextContent list \<Rightarrow> nat \<Rightarrow> nat reply" where
  "answering items b = (Inr items, Suc b)"

definition answering_server :: "nat ProxmoxMCPServer" where
  "answering_server =
     \<lparr>node_tools_get_nodes = answering [block ''pve1'', block ''pve2'', block ''pve1''],
      node_tools_get_node_status = (\<lambda>node. answering [block node]),
      vm_tools_get_vms = answering [],
      container_tools_get_containers = answering [],
      vm_tools_execute_command =
        (\<lambda>node vmid command. answering [block node, block vmid, block command]),
      storage_tools_get_storage = answering [],
      cluster_tools_get_cluster_status = answering [],
      ai_diagnostics_analyze_cluster_health = answering [],
      ai_diagnostics_diagnose_vm_issues = (\<lambda>node vmid. answering [block vmid, block node]),
      ai_diagnostics_suggest_resource_optimization = answering [],
      ai_diagnostics_analyze_security_posture = answering []\<rparr>"

subsection \<open>The process: streams, log and signal table\<close>

text \<open>
  What the lifecycle code acts on: the lines printed to the two output streams, the
  records handed to \<^verbatim>\<open>self.logger\<close>, the handler installed for each of the two
  signals, and how many times the event loop has been entered.
\<close>

datatype log_record = Info string | Error string

datatype signum = SIGINT | SIGTERM

datatype sig_action = SIG_DFL | Call_signal_handler

record process =
  stdout :: "string list"
  stderr :: "string list"
  logger :: "log_record list"
  signal_table :: "signum \<Rightarrow> sig_action"
  event_loop_runs :: nat

text \<open>
  How a piece of Python code ends: it returns, it raises, or the operating system ends
  the process on a signal whose action is the default one.
\<close>

datatype outcome = Returns | Raises py_exc | Killed signum

text \<open>\<^verbatim>\<open>print(line)\<close> with no \<^verbatim>\<open>file\<close> argument writes to \<^verbatim>\<open>sys.stdout\<close>.\<close>

definition print :: "string \<Rightarrow> process \<Rightarrow> process" where
  "print line p = p\<lparr>stdout := stdout p @ [line]\<rparr>"

definition logger_info :: "string \<Rightarrow> process \<Rightarrow> process" where
  "logger_info msg p = p\<lparr>logger := logger p @ [Info msg]\<rparr>"

definition logger_error :: "string \<Rightarrow> process \<Rightarrow> process" where
  "logger_error msg p = p\<lparr>logger := logger p @ [Error msg]\<rparr>"

text \<open>\<^verbatim>\<open>sys.exit(status)\<close> raises \<^verbatim>\<open>SystemExit(status)\<close>.\<close>

definition sys_exit :: "int \<Rightarrow> outcome" where
  "sys_exit status = Raises (SystemExit status)"

text \<open>\<^verbatim>\<open>signal.signal(signum, signal_handler)\<close>.\<close>

definition signal_signal :: "signum \<Rightarrow> sig_action \<Rightarrow> process \<Rightarrow> process" where
  "signal_signal signum action p = p\<lparr>signal_table := (signal_table p)(signum := action)\<rparr>"

text \<open>Lines 181--183: the handler ignores its arguments, logs, then exits.\<close>

definition signal_handler :: "signum \<Rightarrow> process \<Rightarrow> outcome \<times> process" where
  "signal_handler signum p = (sys_exit 0, logger_info ''Received signal to shutdown...'' p)"

subsection \<open>The event loop, as far as the module sees it\<close>

text \<open>
  \<^verbatim>\<open>anyio.run(self.mcp.run_stdio_async)\<close> is a library call. What ends it is a parameter
  of the model: the transport's input closes and the call returns, an exception escapes
  the loop, or a signal arrives. On a signal the interpreter runs the installed handler
  in the main thread and the exception the handler raises leaves \<open>anyio_run\<close>; with the
  default action still in place \<^verbatim>\<open>SIGINT\<close> raises \<^verbatim>\<open>KeyboardInterrupt\<close> and
  \<^verbatim>\<open>SIGTERM\<close> ends the process.
\<close>

datatype loop_event = Stdin_closed | Loop_raises py_exc | Signal_arrives signum

definition deliver :: "signum \<Rightarrow> process \<Rightarrow> outcome \<times> process" where
  "deliver signum p =
     (case signal_table p signum of
        Call_signal_handler \<Rightarrow> signal_handler signum p
      | SIG_DFL \<Rightarrow>
          (case signum of
             SIGINT \<Rightarrow> (Raises KeyboardInterrupt, p)
           | SIGTERM \<Rightarrow> (Killed SIGTERM, p)))"

definition anyio_run :: "loop_event \<Rightarrow> process \<Rightarrow> outcome \<times> process" where
  "anyio_run ev p =
     (let p1 = p\<lparr>event_loop_runs := Suc (event_loop_runs p)\<rparr>
      in case ev of
           Stdin_closed \<Rightarrow> (Returns, p1)
         | Loop_raises e \<Rightarrow> (Raises e, p1)
         | Signal_arrives signum \<Rightarrow> deliver signum p1)"

subsection \<open>\<^verbatim>\<open>ProxmoxMCPServer.start\<close> (lines 169--194)\<close>

text \<open>
  Both handlers are installed, the start is logged, the loop runs. \<^verbatim>\<open>except Exception\<close>
  catches the instances of \<^verbatim>\<open>Exception\<close> only; every other outcome of the loop leaves
  \<open>start\<close> unchanged.
\<close>

definition start :: "loop_event \<Rightarrow> process \<Rightarrow> outcome \<times> process" where
  "start ev p =
     (let p1 = signal_signal SIGINT Call_signal_handler p;
          p2 = signal_signal SIGTERM Call_signal_handler p1;
          p3 = logger_info ''Starting MCP server...'' p2
      in case anyio_run ev p3 of
           (Raises (Exception e), p4) \<Rightarrow> (sys_exit 1, logger_error (''Server error: '' @ e) p4)
         | (r, p4) \<Rightarrow> (r, p4))"

subsection \<open>The \<^verbatim>\<open>__main__\<close> block (lines 197--211)\<close>

text \<open>
  \<open>environ\<close> is the process environment read by \<^verbatim>\<open>os.getenv\<close>. \<open>init\<close> is the outcome of
  the constructor call \<^verbatim>\<open>ProxmoxMCPServer(config_path)\<close> (lines 54--77, whose steps are
  the configuration loader, the logging setup, the connection manager, the tool groups and
  the registrations): \<open>None\<close> when the server is built, the exception otherwise.
  \<^verbatim>\<open>if not config_path\<close> holds for an unset variable and for an empty value.
\<close>

definition config_missing :: "process \<Rightarrow> outcome \<times> process" where
  "config_missing p =
     (sys_exit 1, print ''PROXMOX_MCP_CONFIG environment variable must be set'' p)"

definition try_body ::
  "(string \<Rightarrow> py_exc option) \<Rightarrow> string \<Rightarrow> loop_event \<Rightarrow> process \<Rightarrow> outcome \<times> process" where
  "try_body init config_path ev p =
     (case init config_path of
        Some e \<Rightarrow> (Raises e, p)
      | None \<Rightarrow> start ev p)"

definition main ::
  "(string \<rightharpoonup> string) \<Rightarrow> (string \<Rightarrow> py_exc option) \<Rightarrow> loop_event \<Rightarrow> process
     \<Rightarrow> outcome \<times> process" where
  "main environ init ev p =
     (case environ ''PROXMOX_MCP_CONFIG'' of
        None \<Rightarrow> config_missing p
      | Some config_path \<Rightarrow>
          if config_path = [] then config_missing p
          else
            (case try_body init config_path ev p of
               (Raises KeyboardInterrupt, p1) \<Rightarrow>
                 (sys_exit 0, print (CHR 0x0A # ''Shutting down gracefully...'') p1)
             | (Raises (Exception e), p1) \<Rightarrow> (sys_exit 1, print (''Error: '' @ e) p1)
             | (r, p1) \<Rightarrow> (r, p1)))"

text \<open>
  What the interpreter does with the outcome of the main module: a normal end is status
  0, an uncaught \<^verbatim>\<open>SystemExit(status)\<close> is that status, any other uncaught exception is
  reported with a traceback.
\<close>

datatype process_end = Exit_status int | Traceback py_exc | Terminated_by signum

fun interpreter :: "outcome \<Rightarrow> process_end" where
  "interpreter Returns = Exit_status 0"
| "interpreter (Raises (SystemExit status)) = Exit_status status"
| "interpreter (Raises e) = Traceback e"
| "interpreter (Killed signum) = Terminated_by signum"

text \<open>A process that has not started yet, and two environments, for concrete runs.\<close>

definition fresh_process :: process where
  "fresh_process =
     \<lparr>stdout = [], stderr = [], logger = [], signal_table = (\<lambda>signum. SIG_DFL),
      event_loop_runs = 0\<rparr>"

definition unset_environ :: "string \<rightharpoonup> string" where
  "unset_environ = Map.empty"

definition configured_environ :: "string \<rightharpoonup> string" where
  "configured_environ = [''PROXMOX_MCP_CONFIG'' \<mapsto> ''/etc/proxmox-mcp/config.json'']"

definition init_succeeds :: "string \<Rightarrow> py_exc option" where
  "init_succeeds config_path = None"

definition init_fails :: "string \<Rightarrow> py_exc option" where
  "init_fails config_path = Some (Exception ''Config file not found'')"

section \<open>Theorems\<close>

lemmas tool_function_defs =
  get_nodes_def get_node_status_def get_vms_def get_containers_def execute_vm_command_def
  get_storage_def get_cluster_status_def analyze_cluster_health_def diagnose_vm_issues_def
  suggest_resource_optimization_def analyze_security_posture_def

lemma calls_recording_call:
  "calls (snd (recording_call c h s)) = calls s @ [c]"
  by (simp add: recording_call_def split: prod.split)

lemma fst_recording_call:
  "fst (recording_call c h s) = fst (h (connection s))"
  by (simp add: recording_call_def split: prod.split)

text \<open>
  Claim C1. An invocation of a registered function with its parameters bound calls the
  function's delegate exactly once, with exactly the supplied values in their positions:
  whatever the delegates do, the calls recorded after the invocation are the calls
  recorded before it followed by that single call. This holds whether the delegate
  returns or raises, so a failing delegate is not called a second time.
\<close>

theorem tool_invokes_handler_exactly_once:
  fixes self :: "'b ProxmoxMCPServer" and s :: "'b recorded"
  shows
    "calls (snd (get_nodes (recording self) s)) = calls s @ [Node_get_nodes]
     \<and> calls (snd (get_node_status (recording self) node s))
         = calls s @ [Node_get_node_status node]
     \<and> calls (snd (get_vms (recording self) s)) = calls s @ [Vm_get_vms]
     \<and> calls (snd (get_containers (recording self) s)) = calls s @ [Container_get_containers]
     \<and> calls (snd (execute_vm_command (recording self) node vmid command s))
         = calls s @ [Vm_execute_command node vmid command]
     \<and> calls (snd (get_storage (recording self) s)) = calls s @ [Storage_get_storage]
     \<and> calls (snd (get_cluster_status (recording self) s))
         = calls s @ [Cluster_get_cluster_status]
     \<and> calls (snd (analyze_cluster_health (recording self) s))
         = calls s @ [Ai_analyze_cluster_health]
     \<and> calls (snd (diagnose_vm_issues (recording self) node vmid s))
         = calls s @ [Ai_diagnose_vm_issues node vmid]
     \<and> calls (snd (suggest_resource_optimization (recording self) s))
         = calls s @ [Ai_suggest_resource_optimization]
     \<and> calls (snd (analyze_security_posture (recording self) s))
         = calls s @ [Ai_analyze_security_posture]"
  by (simp add: tool_function_defs recording_def calls_recording_call)

text \<open>
  The same at a concrete run: with the hypervisor unreachable,
  \<^verbatim>\<open>execute_vm_command("pve1", "100", "uptime")\<close> raises the delegate's exception and the
  delegate has been called once, with those three values.
\<close>

theorem tool_invokes_handler_exactly_once_witness:
  "calls (snd (execute_vm_command (recording unreachable_server) ''pve1'' ''100'' ''uptime''
      \<lparr>calls = [], connection = 0\<rparr>)) = [Vm_execute_command ''pve1'' ''100'' ''uptime'']
   \<and> fst (execute_vm_command (recording unreachable_server) ''pve1'' ''100'' ''uptime''
      \<lparr>calls = [], connection = 0\<rparr>) = Inl (Exception ''node unreachable'')"
proof -
  have once:
    "calls (snd (execute_vm_command (recording unreachable_server) ''pve1'' ''100'' ''uptime''
        \<lparr>calls = [], connection = 0\<rparr>)) = [Vm_execute_command ''pve1'' ''100'' ''uptime'']"
    using tool_invokes_handler_exactly_once
      [where self = unreachable_server and s = "\<lparr>calls = [], connection = 0\<rparr>"
         and node = "''pve1''" and vmid = "''100''" and command = "''uptime''"]
    by simp
  have raised:
    "fst (execute_vm_command (recording unreachable_server) ''pve1'' ''100'' ''uptime''
        \<lparr>calls = [], connection = 0\<rparr>) = Inl (Exception ''node unreachable'')"
    by (simp add: execute_vm_command_def recording_def fst_recording_call
        unreachable_server_def unreachable_def)
  from once raised show ?thesis by simp
qed

end
